theory Spec2Isabelle
  imports Complex_Main
begin

section \<open>Data model\<close>

text \<open>
  The four services exchange JSON over HTTP and keep their data in three key-value
  tables. JavaScript numbers are kept abstract: a type \<open>'n\<close> with the operations the
  handlers use (\<open>0\<close>, \<open>+\<close>, \<open>-\<close>, \<open>*\<close>, \<open><\<close>, \<open>\<le>\<close>). No law of arithmetic is assumed beyond
  what the sort of a theorem says. Product identifiers are integers; those that the
  store holds are within the safe-integer range, where the path segment written by a
  caller and \<open>parseInt\<close> of it in the product service are inverse to each other, so
  the identifier is passed as it is.
  Wall-clock readings (\<open>new Date().toISOString()\<close>) and fresh identifiers
  (\<open>uuid.v4()\<close>) are arguments of the handler that reads them. The log is not
  modelled; of the metrics counters only the one that can throw is, the
  \<open>orderValue\<close> counter of the order service.
\<close>

record 'n product =
  p_id :: int
  p_name :: string
  p_price :: 'n
  p_description :: string
  p_image :: string
  p_stock :: 'n

record 'n cart_item =
  productId :: int
  quantity :: 'n

text \<open>
  The \<open>items\<close> attribute of a cart record, and the \<open>items\<close> field of a request
  body, is whatever JSON value was sent. The values modelled are a missing field,
  \<open>null\<close>, a boolean, a number and an array of cart items (strings and objects,
  the other non-array values, are left out).
\<close>

datatype 'n items_value =
    JUndefined
  | JNull
  | JBool bool
  | JNum 'n
  | JArray "'n cart_item list"

record 'n cart =
  c_userId :: string
  c_items :: "'n items_value"
  c_updatedAt :: string

record customer =
  cu_name :: string
  cu_email :: string
  cu_address :: string

record 'n order_product =
  op_id :: int
  op_name :: string
  op_price :: 'n

record 'n order_item =
  oi_product :: "'n order_product"
  oi_quantity :: 'n
  oi_itemTotal :: 'n

record 'n order =
  o_id :: string
  o_userId :: string
  o_date :: string
  o_customer :: customer
  o_items :: "'n order_item list"
  o_total :: 'n
  o_status :: string

text \<open>The three tables: products keyed by \<open>id\<close>, carts by \<open>userId\<close>, orders by \<open>id\<close>.\<close>

record 'n state =
  products_table :: "'n product list"
  carts_table :: "'n cart list"
  orders_table :: "'n order list"

text \<open>
  An HTTP reply: status 200 with a body, or an error status with the message of
  \<open>{ error: ... }\<close>. A caller that uses axios gets an exception for every status
  outside 2xx, that is for every \<open>ReplyError\<close> of the handlers below.
\<close>

datatype 'a reply = Reply200 'a | ReplyError nat string

fun status_code :: "'a reply \<Rightarrow> nat" where
  "status_code (Reply200 _) = 200"
| "status_code (ReplyError c _) = c"

section \<open>The key-value store\<close>

text \<open>
  A table is the list of its items; the key is an attribute of the item.
  \<open>GetCommand\<close> returns the item with the given key, \<open>PutCommand\<close> replaces the item
  that has the key of the new one. A read returns the latest write. The cart service
  asks the store for that with \<open>ConsistentRead\<close>; the product service does not, so
  for the products table the model is the store once its replicas have caught up.
\<close>

definition get_item :: "('a \<Rightarrow> 'k) \<Rightarrow> 'a list \<Rightarrow> 'k \<Rightarrow> 'a option" where
  "get_item key t k = find (\<lambda>x. key x = k) t"

definition put_item :: "('a \<Rightarrow> 'k) \<Rightarrow> 'a list \<Rightarrow> 'a \<Rightarrow> 'a list" where
  "put_item key t x = x # filter (\<lambda>y. key y \<noteq> key x) t"

section \<open>The document client\<close>

text \<open>
  Every \<open>PutCommand\<close> goes through the document client of the AWS SDK, which
  marshals the item before it is sent and throws when the item holds a value it
  refuses: a number above \<open>Number.MAX_SAFE_INTEGER\<close> or below
  \<open>Number.MIN_SAFE_INTEGER\<close>, or \<open>undefined\<close>. The handler's \<open>await\<close> then
  throws and nothing is written. The client is not part of the repository: which
  numbers of the abstract type it takes is the parameter \<open>accepts\<close> of every handler
  that writes. Product identifiers are integers, taken within the two bounds.
\<close>

definition safe_integer :: "int \<Rightarrow> bool" where
  "safe_integer i = (\<not> i > 9007199254740991 \<and> \<not> i < - 9007199254740991)"

definition product_ok :: "('n \<Rightarrow> bool) \<Rightarrow> 'n product \<Rightarrow> bool" where
  "product_ok accepts p = (safe_integer (p_id p) \<and> accepts (p_price p) \<and> accepts (p_stock p))"

definition cart_item_ok :: "('n \<Rightarrow> bool) \<Rightarrow> 'n cart_item \<Rightarrow> bool" where
  "cart_item_ok accepts item = (safe_integer (productId item) \<and> accepts (quantity item))"

fun items_ok :: "('n \<Rightarrow> bool) \<Rightarrow> 'n items_value \<Rightarrow> bool" where
  "items_ok accepts JUndefined = False"
| "items_ok accepts JNull = True"
| "items_ok accepts (JBool b) = True"
| "items_ok accepts (JNum n) = accepts n"
| "items_ok accepts (JArray xs) = list_all (cart_item_ok accepts) xs"

definition order_item_ok :: "('n \<Rightarrow> bool) \<Rightarrow> 'n order_item \<Rightarrow> bool" where
  "order_item_ok accepts l =
     (safe_integer (op_id (oi_product l)) \<and> accepts (op_price (oi_product l)) \<and>
      accepts (oi_quantity l) \<and> accepts (oi_itemTotal l))"

definition order_ok :: "('n \<Rightarrow> bool) \<Rightarrow> 'n order \<Rightarrow> bool" where
  "order_ok accepts order = (list_all (order_item_ok accepts) (o_items order) \<and> accepts (o_total order))"

section \<open>Product service\<close>

text \<open>\<open>GET /api/products/:id\<close>\<close>

definition get_product :: "'n state \<Rightarrow> int \<Rightarrow> 'n product reply" where
  "get_product st ident =
     (case get_item p_id (products_table st) ident of
        None \<Rightarrow> ReplyError 404 ''Product not found''
      | Some item \<Rightarrow> Reply200 item)"

text \<open>
  \<open>PUT /api/products/:id/stock\<close> with body \<open>{ stock }\<close>. When the document client
  refuses the rewritten record the handler answers 500 and has written nothing.
\<close>

definition put_stock ::
  "('n \<Rightarrow> bool) \<Rightarrow> 'n state \<Rightarrow> int \<Rightarrow> 'n \<Rightarrow> unit reply \<times> 'n state" where
  "put_stock accepts st productId' stock =
     (case get_item p_id (products_table st) productId' of
        None \<Rightarrow> (ReplyError 404 ''Product not found'', st)
      | Some item \<Rightarrow>
          (let updatedProduct = item\<lparr>p_stock := stock\<rparr>
           in if product_ok accepts updatedProduct
              then (Reply200 (),
                    st\<lparr>products_table := put_item p_id (products_table st) updatedProduct\<rparr>)
              else (ReplyError 500 ''Failed to update stock'', st)))"

section \<open>Cart service\<close>

text \<open>JavaScript truthiness, and \<open>v || d\<close>.\<close>

fun truthy :: "'n::zero items_value \<Rightarrow> bool" where
  "truthy JUndefined = False"
| "truthy JNull = False"
| "truthy (JBool b) = b"
| "truthy (JNum n) = (n \<noteq> 0)"
| "truthy (JArray _) = True"

definition js_or :: "'n::zero items_value \<Rightarrow> 'n items_value \<Rightarrow> 'n items_value" where
  "js_or v d = (if truthy v then v else d)"

fun is_array :: "'n items_value \<Rightarrow> bool" where
  "is_array (JArray _) = True"
| "is_array _ = False"

text \<open>
  The consistent read of the cart record followed by
  \<open>result.Item ? result.Item.items || [] : []\<close>, as both \<open>GET /api/cart/:userId\<close>
  and \<open>POST /api/cart/:userId/add\<close> do it.
\<close>

definition cart_value :: "'n::zero state \<Rightarrow> string \<Rightarrow> 'n items_value" where
  "cart_value st userId =
     (case get_item c_userId (carts_table st) userId of
        None \<Rightarrow> JArray []
      | Some item \<Rightarrow> js_or (c_items item) (JArray []))"

text \<open>\<open>GET /api/cart/:userId\<close>\<close>

definition get_cart :: "'n::zero state \<Rightarrow> string \<Rightarrow> 'n items_value reply" where
  "get_cart st userId = Reply200 (cart_value st userId)"

text \<open>\<open>Array.prototype.findIndex\<close>: the first index whose element satisfies \<open>P\<close>, or \<open>-1\<close>.\<close>

fun findIndex :: "('a \<Rightarrow> bool) \<Rightarrow> 'a list \<Rightarrow> int" where
  "findIndex P [] = - 1"
| "findIndex P (x # xs) =
     (if P x then 0
      else (let i = findIndex P xs in if i < 0 then - 1 else i + 1))"

text \<open>
  \<open>POST /api/cart/:userId/add\<close> with body \<open>{ productId, quantity }\<close>. A cart value
  that is not an array has no \<open>findIndex\<close>: the call throws, and the handler answers
  500 before any write. So it does when the document client refuses the cart record.
  When the stock write fails the cart record has been written already. The reply
  \<open>{ success: true, cart: cartItems }\<close> is modelled by its \<open>cart\<close> field.
\<close>

definition add_item ::
  "('n \<Rightarrow> bool) \<Rightarrow> string \<Rightarrow> 'n::{zero,plus,minus,ord} state \<Rightarrow> string \<Rightarrow> int \<Rightarrow> 'n
     \<Rightarrow> 'n items_value reply \<times> 'n state" where
  "add_item accepts now st userId pid qty =
     (case get_product st pid of
        ReplyError _ _ \<Rightarrow> (ReplyError 500 ''Failed to add to cart'', st)
      | Reply200 product \<Rightarrow>
          if p_stock product < qty then (ReplyError 400 ''Insufficient stock'', st)
          else
            (case cart_value st userId of
               JArray cartItems \<Rightarrow>
                 (let existingItemIndex = findIndex (\<lambda>item. productId item = pid) cartItems;
                      cartItems' =
                        (if existingItemIndex \<ge> 0
                         then cartItems[nat existingItemIndex :=
                                (cartItems ! nat existingItemIndex)
                                  \<lparr>quantity := quantity (cartItems ! nat existingItemIndex) + qty\<rparr>]
                         else cartItems @ [\<lparr>productId = pid, quantity = qty\<rparr>])
                  in if \<not> items_ok accepts (JArray cartItems')
                     then (ReplyError 500 ''Failed to add to cart'', st)
                     else
                       (let st1 = st\<lparr>carts_table := put_item c_userId (carts_table st)
                              \<lparr>c_userId = userId, c_items = JArray cartItems', c_updatedAt = now\<rparr>\<rparr>
                        in (case put_stock accepts st1 pid (p_stock product - qty) of
                              (ReplyError _ _, st2) \<Rightarrow> (ReplyError 500 ''Failed to add to cart'', st2)
                            | (Reply200 _, st2) \<Rightarrow> (Reply200 (JArray cartItems'), st2))))
             | _ \<Rightarrow> (ReplyError 500 ''Failed to add to cart'', st)))"

text \<open>
  \<open>PUT /api/cart/:userId\<close> with body \<open>{ items }\<close>; the reply carries the \<open>items\<close>
  of the body as they came.
\<close>

definition replace_cart ::
  "('n \<Rightarrow> bool) \<Rightarrow> string \<Rightarrow> 'n::zero state \<Rightarrow> string \<Rightarrow> 'n items_value
     \<Rightarrow> 'n items_value reply \<times> 'n state" where
  "replace_cart accepts now st userId items =
     (if items_ok accepts (js_or items (JArray []))
      then (Reply200 items,
            st\<lparr>carts_table := put_item c_userId (carts_table st)
                 \<lparr>c_userId = userId, c_items = js_or items (JArray []), c_updatedAt = now\<rparr>\<rparr>)
      else (ReplyError 500 ''Failed to update cart'', st))"

text \<open>\<open>DELETE /api/cart/:userId\<close>\<close>

definition delete_cart :: "string \<Rightarrow> 'n state \<Rightarrow> string \<Rightarrow> unit reply \<times> 'n state" where
  "delete_cart now st userId =
     (Reply200 (),
      st\<lparr>carts_table := put_item c_userId (carts_table st)
           \<lparr>c_userId = userId, c_items = JArray [], c_updatedAt = now\<rparr>\<rparr>)"

section \<open>Order service\<close>

text \<open>
  The loop of \<open>POST /api/orders\<close> over the cart lines, with its two accumulators;
  \<open>None\<close> when a product request fails, which throws out of the handler's \<open>try\<close>.
\<close>

fun order_loop ::
  "'n::{plus,times} state \<Rightarrow> 'n cart_item list \<Rightarrow> 'n \<Rightarrow> 'n order_item list
     \<Rightarrow> ('n \<times> 'n order_item list) option" where
  "order_loop st [] total' orderItems = Some (total', orderItems)"
| "order_loop st (item # rest) total' orderItems =
     (case get_product st (productId item) of
        ReplyError _ _ \<Rightarrow> None
      | Reply200 product \<Rightarrow>
          (let itemTotal = p_price product * quantity item
           in order_loop st rest (total' + itemTotal)
                (orderItems @
                  [\<lparr>oi_product = \<lparr>op_id = p_id product, op_name = p_name product,
                                   op_price = p_price product\<rparr>,
                    oi_quantity = quantity item,
                    oi_itemTotal = itemTotal\<rparr>])))"

text \<open>
  \<open>POST /api/orders\<close> with body \<open>{ userId, customer }\<close>. \<open>now\<close> and \<open>orderId\<close> are
  the order service's clock and fresh identifier, \<open>cartNow\<close> the cart service's clock
  when it clears the cart.

  The handler writes \<open>userId\<close> as it came into the URLs \<open>/api/cart/${userId}\<close> of its
  two requests to the cart service. Which \<open>:userId\<close> the cart service's router then
  sees is decided by the URL parser and by Express, neither part of the repository:
  it is the parameter \<open>route\<close>, \<open>None\<close> when the request matches no route of the cart
  service, which makes the request fail.

  A cart value that is not an array has no \<open>length\<close> equal to 0 and cannot be
  iterated: the handler answers 500 before any write. So it does when the document
  client refuses the order. After the order is stored and the cart cleared,
  \<open>orderValue.inc(total)\<close> throws for a negative total, and the handler answers 500.
\<close>

definition create_order ::
  "('n \<Rightarrow> bool) \<Rightarrow> (string \<Rightarrow> string option) \<Rightarrow> string \<Rightarrow> string \<Rightarrow> string
     \<Rightarrow> 'n::{zero,plus,times,ord} state \<Rightarrow> string \<Rightarrow> customer
     \<Rightarrow> 'n order reply \<times> 'n state" where
  "create_order accepts route now orderId cartNow st userId cust =
     (case route userId of
        None \<Rightarrow> (ReplyError 500 ''Failed to create order'', st)
      | Some cartUser \<Rightarrow>
         (case get_cart st cartUser of
            ReplyError _ _ \<Rightarrow> (ReplyError 500 ''Failed to create order'', st)
          | Reply200 (JArray cartItems) \<Rightarrow>
              if length cartItems = 0 then (ReplyError 400 ''Cart is empty'', st)
              else
                (case order_loop st cartItems 0 [] of
                   None \<Rightarrow> (ReplyError 500 ''Failed to create order'', st)
                 | Some (total', orderItems) \<Rightarrow>
                     (let order = \<lparr>o_id = orderId, o_userId = userId, o_date = now,
                                   o_customer = cust, o_items = orderItems, o_total = total',
                                   o_status = ''Confirmed''\<rparr>
                      in if \<not> order_ok accepts order
                         then (ReplyError 500 ''Failed to create order'', st)
                         else
                           (let st1 = st\<lparr>orders_table := put_item o_id (orders_table st) order\<rparr>
                            in (case delete_cart cartNow st1 cartUser of
                                  (ReplyError _ _, st2) \<Rightarrow>
                                    (ReplyError 500 ''Failed to create order'', st2)
                                | (Reply200 _, st2) \<Rightarrow>
                                    if total' < 0
                                    then (ReplyError 500 ''Failed to create order'', st2)
                                    else (Reply200 order, st2)))))
          | Reply200 _ \<Rightarrow> (ReplyError 500 ''Failed to create order'', st)))"

section \<open>Frontend service\<close>

datatype page = Redirect string

text \<open>
  \<open>POST /cart/update/:id\<close> with form field \<open>quantity\<close>, for the user of the session,
  whose id is a UUID issued by the frontend. Every exception ends in the handler's
  \<open>catch\<close>, which redirects to \<open>/cart\<close> as the normal path does; the state is the one
  reached when the exception was thrown.
\<close>

definition cart_update ::
  "('n \<Rightarrow> bool) \<Rightarrow> string \<Rightarrow> 'n::{zero,plus,minus,ord} state \<Rightarrow> string \<Rightarrow> int \<Rightarrow> 'n
     \<Rightarrow> page \<times> 'n state" where
  "cart_update accepts cartNow st userId pid newQuantity =
     (case get_cart st userId of
        ReplyError _ _ \<Rightarrow> (Redirect ''/cart'', st)
      | Reply200 (JArray cartItems) \<Rightarrow>
          (case find (\<lambda>item. productId item = pid) cartItems of
             None \<Rightarrow> (Redirect ''/cart'', st)
           | Some currentItem \<Rightarrow>
               (let quantityDiff = quantity currentItem - newQuantity
                in if newQuantity \<le> 0 then
                     (case get_product st pid of
                        ReplyError _ _ \<Rightarrow> (Redirect ''/cart'', st)
                      | Reply200 product \<Rightarrow>
                          (case put_stock accepts st pid (p_stock product + quantity currentItem) of
                             (ReplyError _ _, st1) \<Rightarrow> (Redirect ''/cart'', st1)
                           | (Reply200 _, st1) \<Rightarrow>
                               (let updatedItems = filter (\<lambda>item. productId item \<noteq> pid) cartItems
                                in (Redirect ''/cart'',
                                    snd (replace_cart accepts cartNow st1 userId
                                           (JArray updatedItems))))))
                   else
                     (case get_product st pid of
                        ReplyError _ _ \<Rightarrow> (Redirect ''/cart'', st)
                      | Reply200 product \<Rightarrow>
                          (case put_stock accepts st pid (p_stock product + quantityDiff) of
                             (ReplyError _ _, st1) \<Rightarrow> (Redirect ''/cart'', st1)
                           | (Reply200 _, st1) \<Rightarrow>
                               (let updatedItems =
                                      map (\<lambda>item. if productId item = pid
                                                   then item\<lparr>quantity := newQuantity\<rparr> else item)
                                        cartItems
                                in (Redirect ''/cart'',
                                    snd (replace_cart accepts cartNow st1 userId
                                           (JArray updatedItems))))))))
      | Reply200 _ \<Rightarrow> (Redirect ''/cart'', st))"

section \<open>Named parts of the handlers\<close>

text \<open>
  The list that \<open>POST /api/cart/:userId/add\<close> saves, as a function of the list it read:
  the \<open>findIndex\<close>, the increment in place and the \<open>push\<close> of \<open>add_item\<close>.
\<close>

definition cart_after_add :: "'n::plus cart_item list \<Rightarrow> int \<Rightarrow> 'n \<Rightarrow> 'n cart_item list" where
  "cart_after_add cartItems pid qty =
     (let existingItemIndex = findIndex (\<lambda>item. productId item = pid) cartItems
      in if existingItemIndex \<ge> 0
         then cartItems[nat existingItemIndex :=
                (cartItems ! nat existingItemIndex)
                  \<lparr>quantity := quantity (cartItems ! nat existingItemIndex) + qty\<rparr>]
         else cartItems @ [\<lparr>productId = pid, quantity = qty\<rparr>])"

text \<open>The object that one turn of \<open>order_loop\<close> pushes onto \<open>orderItems\<close>.\<close>

definition order_line :: "'n::times product \<Rightarrow> 'n cart_item \<Rightarrow> 'n order_item" where
  "order_line product item =
     \<lparr>oi_product = \<lparr>op_id = p_id product, op_name = p_name product, op_price = p_price product\<rparr>,
      oi_quantity = quantity item,
      oi_itemTotal = p_price product * quantity item\<rparr>"

section \<open>Sequences of cart operations\<close>

text \<open>
  A request to the cart service that writes, with the clock reading of its handler, and
  the state after a sequence of such requests.
\<close>

datatype 'n cart_op =
    AddItem string string int 'n
  | ReplaceCart string string "'n items_value"
  | ClearCart string string

fun run_op ::
  "('n \<Rightarrow> bool) \<Rightarrow> 'n::{zero,plus,minus,ord} state \<Rightarrow> 'n cart_op \<Rightarrow> 'n state" where
  "run_op accepts st (AddItem now u p q) = snd (add_item accepts now st u p q)"
| "run_op accepts st (ReplaceCart now u v) = snd (replace_cart accepts now st u v)"
| "run_op accepts st (ClearCart now u) = snd (delete_cart now st u)"

text \<open>A \<open>PUT\<close> body whose \<open>items\<close> is an array or falsy (missing, \<open>null\<close>, \<open>false\<close>, \<open>0\<close>).\<close>

fun list_or_falsy :: "'n::zero cart_op \<Rightarrow> bool" where
  "list_or_falsy (ReplaceCart now u v) = (is_array v \<or> \<not> truthy v)"
| "list_or_falsy _ = True"

text \<open>Every stored cart record has an array as its \<open>items\<close>.\<close>

definition carts_ok :: "'n state \<Rightarrow> bool" where
  "carts_ok st = list_all (\<lambda>r. is_array (c_items r)) (carts_table st)"

definition returns_list :: "'n items_value reply \<Rightarrow> bool" where
  "returns_list r = (case r of Reply200 v \<Rightarrow> is_array v | ReplyError _ _ \<Rightarrow> False)"

text \<open>The product occurs in a line of the cart.\<close>

fun in_cart :: "'n items_value \<Rightarrow> int \<Rightarrow> bool" where
  "in_cart (JArray xs) p = list_ex (\<lambda>item. productId item = p) xs"
| "in_cart _ p = False"

section \<open>A deployment\<close>

text \<open>
  \<open>sampleProducts\<close> of the product service, with exact decimal prices, and a state
  whose products table holds them, with no cart and no order.
\<close>

definition smartphone :: "rat product" where
  "smartphone = \<lparr>p_id = 1, p_name = ''Smartphone X12 Pro'', p_price = 69999 / 100,
     p_description = ''Latest flagship smartphone with advanced features'',
     p_image = ''/images/smartphone.jpg'', p_stock = 50\<rparr>"

definition ultrabook :: "rat product" where
  "ultrabook = \<lparr>p_id = 2, p_name = ''UltraBook Pro 16'', p_price = 129999 / 100,
     p_description = ''High-performance laptop for professionals'',
     p_image = ''/images/laptop.jpg'', p_stock = 30\<rparr>"

definition headphones :: "rat product" where
  "headphones = \<lparr>p_id = 3, p_name = ''SoundWave Elite Headphones'', p_price = 19999 / 100,
     p_description = ''Premium wireless headphones with noise cancellation'',
     p_image = ''/images/headphones.jpg'', p_stock = 100\<rparr>"

definition smartwatch :: "rat product" where
  "smartwatch = \<lparr>p_id = 4, p_name = ''FitTech Pro Smartwatch'', p_price = 24999 / 100,
     p_description = ''Advanced fitness tracking smartwatch'',
     p_image = ''/images/smartwatch.jpg'', p_stock = 45\<rparr>"

definition tablet :: "rat product" where
  "tablet = \<lparr>p_id = 5, p_name = ''SlimTab Ultra'', p_price = 49999 / 100,
     p_description = ''Ultra-thin tablet for creativity and productivity'',
     p_image = ''/images/tablet.jpg'', p_stock = 25\<rparr>"

definition sampleProducts :: "rat product list" where
  "sampleProducts = [smartphone, ultrabook, headphones, smartwatch, tablet]"

definition seeded :: "rat state" where
  "seeded = \<lparr>products_table = sampleProducts, carts_table = [], orders_table = []\<rparr>"

text \<open>The document client's test on a number, for exact numbers.\<close>

definition safe_number :: "rat \<Rightarrow> bool" where
  "safe_number n = (\<not> n > 9007199254740991 \<and> \<not> n < - 9007199254740991)"

text \<open>
  The \<open>:userId\<close> that the cart service sees for \<open>/api/cart/${userId}\<close> when the part
  of \<open>userId\<close> before a \<open>?\<close> or \<open>#\<close> is made of letters, digits, \<open>-\<close> and \<open>_\<close>, as
  the UUIDs of the frontend are: the path of the URL ends at the first \<open>?\<close> or \<open>#\<close>,
  and the segment after \<open>/api/cart/\<close> is the parameter. For every other id (a slash,
  a percent escape, a dot segment, a space in the path) this router gives no route;
  what the URL parser and Express make of such an id is not described here, and no
  statement below is about one.
\<close>

definition plain_char :: "char \<Rightarrow> bool" where
  "plain_char c =
     (c \<in> set ''abcdefghijklmnopqrstuvwxyzABCDEFGHIJKLMNOPQRSTUVWXYZ0123456789-_'')"

definition path_param :: "string \<Rightarrow> string option" where
  "path_param userId =
     (let segment = takeWhile (\<lambda>c. c \<noteq> CHR ''?'' \<and> c \<noteq> CHR ''#'') userId
      in if segment \<noteq> [] \<and> list_all plain_char segment then Some segment else None)"

text \<open>The deployment after user \<open>u1\<close> has put two smartphones into the cart.\<close>

definition shopping :: "rat state" where
  "shopping = snd (add_item safe_number ''2024-05-01T10:00:00.000Z'' seeded ''u1'' 1 2)"

text \<open>The deployment after user \<open>u1\<close> has added the quantity \<open>-2\<close> of the smartphone.\<close>

definition negative_cart :: "rat state" where
  "negative_cart = snd (add_item safe_number ''2024-05-01T10:00:00.000Z'' seeded ''u1'' 1 (- 2))"

section \<open>Facts about the store\<close>

lemma get_item_key: "get_item key t k = Some x \<Longrightarrow> key x = k"
  by (auto simp: get_item_def find_Some_iff)

lemma get_item_mem: "get_item key t k = Some x \<Longrightarrow> x \<in> set t"
  by (auto simp: get_item_def find_Some_iff)

lemma get_put_same: "get_item key (put_item key t x) (key x) = Some x"
  by (simp add: get_item_def put_item_def)

lemma find_filter_other:
  "k \<noteq> k' \<Longrightarrow> find (\<lambda>x. key x = k) (filter (\<lambda>y. key y \<noteq> k') t) = find (\<lambda>x. key x = k) t"
  by (induction t) auto

lemma get_put_other:
  "k \<noteq> key x \<Longrightarrow> get_item key (put_item key t x) k = get_item key t k"
  by (simp add: get_item_def put_item_def find_filter_other)

lemma get_put:
  "get_item key (put_item key t x) k = (if k = key x then Some x else get_item key t k)"
  by (simp add: get_put_same get_put_other)

lemma seeded_smartphone: "get_item p_id (products_table seeded) 1 = Some smartphone"
  by (simp add: seeded_def sampleProducts_def get_item_def smartphone_def)

lemma seeded_no_cart: "get_item c_userId (carts_table seeded) u = None"
  by (simp add: seeded_def get_item_def)

lemma safe_number_small [simp]: "safe_number 50" "safe_number 48" "safe_number 2"
  "safe_number (69999 / 100)"
  by (simp_all add: safe_number_def)

lemma smartphone_fields [simp]:
  "p_id smartphone = 1" "p_stock smartphone = 50" "p_price smartphone = 69999 / 100"
  by (simp_all add: smartphone_def)

section \<open>Product service: stock writes\<close>


lemma put_stock_carts: "carts_table (snd (put_stock accepts st p s)) = carts_table st"
  by (simp add: put_stock_def Let_def split: option.splits)




section \<open>Cart service\<close>

text \<open>
  C8: when the carts table has no record for the user, \<open>GET /api/cart/:userId\<close>
  answers with status 200 and the empty array.
\<close>

theorem get_cart_no_record:
  assumes "get_item c_userId (carts_table st) u = None"
  shows "get_cart st u = Reply200 (JArray []) \<and> status_code (get_cart st u) = 200"
  using assms by (simp add: get_cart_def cart_value_def)

theorem get_cart_no_record_witness:
  "get_item c_userId (carts_table seeded) ''u1'' = None \<and>
   get_cart seeded ''u1'' = Reply200 (JArray []) \<and> status_code (get_cart seeded ''u1'') = 200"
  using get_cart_no_record [OF seeded_no_cart, of "''u1''"] seeded_no_cart [of "''u1''"]
  by simp

subsection \<open>\<open>findIndex\<close>\<close>

lemma findIndex_neg_iff: "findIndex P xs < 0 \<longleftrightarrow> (\<forall>x\<in>set xs. \<not> P x)"
  by (induction xs) (auto simp: Let_def)

lemma findIndex_first:
  "0 \<le> findIndex P xs \<Longrightarrow>
     nat (findIndex P xs) < length xs \<and> P (xs ! nat (findIndex P xs)) \<and>
     (\<forall>j < nat (findIndex P xs). \<not> P (xs ! j))"
proof (induction xs)
  case Nil
  then show ?case by simp
next
  case (Cons x xs)
  show ?case
  proof (cases "P x")
    case True
    then show ?thesis by simp
  next
    case False
    with Cons.prems have nn: "0 \<le> findIndex P xs"
      by (auto simp: Let_def split: if_splits)
    from Cons.IH [OF nn] False nn show ?thesis
      by (auto simp: Let_def nat_add_distrib less_Suc_eq_0_disj)
  qed
qed

lemma first_index_unique:
  assumes "k < length xs" "P (xs ! k)" "\<forall>j<k. \<not> P (xs ! j)"
      and "k' < length xs" "P (xs ! k')" "\<forall>j<k'. \<not> P (xs ! j)"
  shows "k = (k'::nat)"
  using assms by (meson linorder_neqE_nat)

subsection \<open>The list saved by an add\<close>

lemma cart_after_add_absent:
  "\<forall>i\<in>set xs. productId i \<noteq> p \<Longrightarrow>
     cart_after_add xs p q = xs @ [\<lparr>productId = p, quantity = q\<rparr>]"
proof -
  assume "\<forall>i\<in>set xs. productId i \<noteq> p"
  then have "findIndex (\<lambda>item. productId item = p) xs < 0"
    by (simp add: findIndex_neg_iff)
  then show ?thesis by (simp add: cart_after_add_def Let_def)
qed

lemma cart_after_add_present:
  assumes "\<exists>i\<in>set xs. productId i = p"
  shows "\<exists>k<length xs. productId (xs ! k) = p \<and> (\<forall>j<k. productId (xs ! j) \<noteq> p) \<and>
           cart_after_add xs p q = xs[k := (xs ! k)\<lparr>quantity := quantity (xs ! k) + q\<rparr>]"
proof -
  let ?i = "findIndex (\<lambda>item. productId item = p) xs"
  from assms have nn: "0 \<le> ?i"
    using findIndex_neg_iff [of "\<lambda>item. productId item = p" xs] by auto
  from findIndex_first [OF nn] have
    "nat ?i < length xs" "productId (xs ! nat ?i) = p" "\<forall>j<nat ?i. productId (xs ! j) \<noteq> p"
    by auto
  moreover from nn have
    "cart_after_add xs p q = xs[nat ?i := (xs ! nat ?i)\<lparr>quantity := quantity (xs ! nat ?i) + q\<rparr>]"
    by (simp add: cart_after_add_def Let_def)
  ultimately show ?thesis by blast
qed

lemma cart_after_add_twice_absent:
  assumes "\<forall>i\<in>set xs. productId i \<noteq> p"
  shows "cart_after_add (cart_after_add xs p q) p q2
           = xs @ [\<lparr>productId = p, quantity = q + q2\<rparr>]"
proof -
  let ?ys = "xs @ [\<lparr>productId = p, quantity = q\<rparr>]"
  have "\<exists>i\<in>set ?ys. productId i = p" by simp
  from cart_after_add_present [OF this, of q2] obtain k where
    k: "k < length ?ys" "productId (?ys ! k) = p" "\<forall>j<k. productId (?ys ! j) \<noteq> p"
       "cart_after_add ?ys p q2 = ?ys[k := (?ys ! k)\<lparr>quantity := quantity (?ys ! k) + q2\<rparr>]"
    by blast
  have "k = length xs"
  proof (rule ccontr)
    assume "k \<noteq> length xs"
    with k(1) have lt: "k < length xs" by simp
    then have "?ys ! k = xs ! k" by (simp add: nth_append)
    with k(2) lt assms show False by (metis nth_mem)
  qed
  with k(4) show ?thesis by (simp add: cart_after_add_absent [OF assms])
qed

lemma cart_after_add_twice_present:
  assumes "\<exists>i\<in>set xs. productId i = p"
  shows "\<exists>k<length xs. productId (xs ! k) = p \<and> (\<forall>j<k. productId (xs ! j) \<noteq> p) \<and>
           cart_after_add (cart_after_add xs p q) p q2
             = xs[k := (xs ! k)\<lparr>quantity := quantity (xs ! k) + q + q2\<rparr>]"
proof -
  from cart_after_add_present [OF assms, of q] obtain k where
    k: "k < length xs" "productId (xs ! k) = p" "\<forall>j<k. productId (xs ! j) \<noteq> p"
       "cart_after_add xs p q = xs[k := (xs ! k)\<lparr>quantity := quantity (xs ! k) + q\<rparr>]"
    by blast
  let ?ys = "xs[k := (xs ! k)\<lparr>quantity := quantity (xs ! k) + q\<rparr>]"
  have ids: "\<And>j. j < length xs \<Longrightarrow> productId (?ys ! j) = productId (xs ! j)"
    using k(1) by (simp add: nth_list_update)
  from k(1,2) have "?ys ! k \<in> set ?ys" "productId (?ys ! k) = p"
    by (simp_all add: set_update_memI)
  then have "\<exists>i\<in>set ?ys. productId i = p" by blast
  from cart_after_add_present [OF this, of q2] obtain k' where
    k': "k' < length ?ys" "productId (?ys ! k') = p" "\<forall>j<k'. productId (?ys ! j) \<noteq> p"
        "cart_after_add ?ys p q2 = ?ys[k' := (?ys ! k')\<lparr>quantity := quantity (?ys ! k') + q2\<rparr>]"
    by blast
  have "k' = k"
  proof (rule first_index_unique [where P = "\<lambda>i. productId i = p" and xs = xs])
    show "k' < length xs" using k'(1) by simp
    show "productId (xs ! k') = p" using k'(1,2) ids by simp
    show "\<forall>j<k'. productId (xs ! j) \<noteq> p" using k'(1,3) ids by simp
  qed (use k in auto)
  with k'(4) k(1) have
    "cart_after_add ?ys p q2 = xs[k := (xs ! k)\<lparr>quantity := quantity (xs ! k) + q + q2\<rparr>]"
    by simp
  with k show ?thesis by auto
qed

subsection \<open>Adding to the cart\<close>

lemma add_item_ok:
  fixes st :: "'n::{zero,plus,minus,ord} state"
  assumes "get_item p_id (products_table st) p = Some pr"
      and "\<not> p_stock pr < q"
      and "cart_value st u = JArray xs"
      and "list_all (cart_item_ok accepts) (cart_after_add xs p q)"
      and "product_ok accepts (pr\<lparr>p_stock := p_stock pr - q\<rparr>)"
  shows "add_item accepts now st u p q =
           (Reply200 (JArray (cart_after_add xs p q)),
            st\<lparr>carts_table := put_item c_userId (carts_table st)
                   \<lparr>c_userId = u, c_items = JArray (cart_after_add xs p q), c_updatedAt = now\<rparr>,
               products_table := put_item p_id (products_table st)
                   (pr\<lparr>p_stock := p_stock pr - q\<rparr>)\<rparr>)"
  using assms
  by (auto simp: add_item_def get_product_def cart_after_add_def Let_def put_stock_def
      split: if_splits)

text \<open>
  C1, as the code has it: for a user whose stored cart is the list \<open>xs\<close>, a product
  present in the catalog and a quantity \<open>q\<close> not above its stock, such that the
  document client accepts every line of the merged list and the product record with
  its stock lowered by \<open>q\<close>, \<open>POST /api/cart/:userId/add\<close> answers 200; afterwards
  \<open>GET /api/cart/:userId\<close> returns the merged list and the stored stock of the
  product is the old stock minus \<open>q\<close>. The merged list is \<open>xs\<close> with the line
  \<open>(p, q)\<close> appended when no line of \<open>xs\<close> is for \<open>p\<close>, and otherwise \<open>xs\<close> with
  \<open>q\<close> added to the quantity of the first line for \<open>p\<close>, every other line as it
  was. A second add of \<open>q2\<close> for the same user and product, under the same
  conditions, accumulates: the line for \<open>p\<close> then carries \<open>q + q2\<close> on top of what it
  had before, and the stock has gone down by \<open>q\<close> and then by \<open>q2\<close>.
\<close>

theorem add_item_merges:
  fixes st :: "'n::{zero,plus,minus,preorder} state"
  assumes "get_item p_id (products_table st) p = Some pr"
      and "q \<le> p_stock pr"
      and "cart_value st u = JArray xs"
      and "list_all (cart_item_ok accepts) (cart_after_add xs p q)"
      and "product_ok accepts (pr\<lparr>p_stock := p_stock pr - q\<rparr>)"
  shows "\<exists>new st'.
      add_item accepts now st u p q = (Reply200 (JArray new), st') \<and>
      get_cart st' u = Reply200 (JArray new) \<and>
      get_item p_id (products_table st') p = Some (pr\<lparr>p_stock := p_stock pr - q\<rparr>) \<and>
      ((\<forall>i\<in>set xs. productId i \<noteq> p) \<longrightarrow> new = xs @ [\<lparr>productId = p, quantity = q\<rparr>]) \<and>
      ((\<exists>i\<in>set xs. productId i = p) \<longrightarrow>
         (\<exists>k<length xs. productId (xs ! k) = p \<and> (\<forall>j<k. productId (xs ! j) \<noteq> p) \<and>
            new = xs[k := (xs ! k)\<lparr>quantity := quantity (xs ! k) + q\<rparr>])) \<and>
      (\<forall>q2 now2.
         q2 \<le> p_stock pr - q \<and>
         list_all (cart_item_ok accepts) (cart_after_add new p q2) \<and>
         accepts (p_stock pr - q - q2) \<longrightarrow>
         (\<exists>new2 st2.
            add_item accepts now2 st' u p q2 = (Reply200 (JArray new2), st2) \<and>
            get_cart st2 u = Reply200 (JArray new2) \<and>
            get_item p_id (products_table st2) p
              = Some (pr\<lparr>p_stock := p_stock pr - q - q2\<rparr>) \<and>
            ((\<forall>i\<in>set xs. productId i \<noteq> p) \<longrightarrow>
               new2 = xs @ [\<lparr>productId = p, quantity = q + q2\<rparr>]) \<and>
            ((\<exists>i\<in>set xs. productId i = p) \<longrightarrow>
               (\<exists>k<length xs. productId (xs ! k) = p \<and> (\<forall>j<k. productId (xs ! j) \<noteq> p) \<and>
                  new2 = xs[k := (xs ! k)\<lparr>quantity := quantity (xs ! k) + q + q2\<rparr>]))))"
proof -
  have key: "p_id pr = p" using assms(1) by (rule get_item_key)
  have nlt: "\<not> p_stock pr < q" using assms(2) by (simp add: less_le_not_le)
  let ?new = "cart_after_add xs p q"
  let ?pr' = "pr\<lparr>p_stock := p_stock pr - q\<rparr>"
  let ?st' = "st\<lparr>carts_table := put_item c_userId (carts_table st)
                   \<lparr>c_userId = u, c_items = JArray ?new, c_updatedAt = now\<rparr>,
                 products_table := put_item p_id (products_table st) ?pr'\<rparr>"
  have run: "add_item accepts now st u p q = (Reply200 (JArray ?new), ?st')"
    by (rule add_item_ok [OF assms(1) nlt assms(3) assms(4) assms(5)])
  have cart': "cart_value ?st' u = JArray ?new"
    by (simp add: cart_value_def get_put js_or_def)
  have prod': "get_item p_id (products_table ?st') p = Some ?pr'"
    using key by (simp add: get_put)
  have second: "\<exists>new2 st2.
            add_item accepts now2 ?st' u p q2 = (Reply200 (JArray new2), st2) \<and>
            get_cart st2 u = Reply200 (JArray new2) \<and>
            get_item p_id (products_table st2) p
              = Some (pr\<lparr>p_stock := p_stock pr - q - q2\<rparr>) \<and>
            ((\<forall>i\<in>set xs. productId i \<noteq> p) \<longrightarrow>
               new2 = xs @ [\<lparr>productId = p, quantity = q + q2\<rparr>]) \<and>
            ((\<exists>i\<in>set xs. productId i = p) \<longrightarrow>
               (\<exists>k<length xs. productId (xs ! k) = p \<and> (\<forall>j<k. productId (xs ! j) \<noteq> p) \<and>
                  new2 = xs[k := (xs ! k)\<lparr>quantity := quantity (xs ! k) + q + q2\<rparr>]))"
    if le2: "q2 \<le> p_stock pr - q"
      and lines2: "list_all (cart_item_ok accepts) (cart_after_add ?new p q2)"
      and stock2: "accepts (p_stock pr - q - q2)"
    for q2 now2
  proof -
    have nlt2: "\<not> p_stock ?pr' < q2" using le2 by (simp add: less_le_not_le)
    have ok2: "product_ok accepts (?pr'\<lparr>p_stock := p_stock ?pr' - q2\<rparr>)"
      using assms(5) stock2 by (simp add: product_ok_def)
    let ?new2 = "cart_after_add ?new p q2"
    let ?st2 = "?st'\<lparr>carts_table := put_item c_userId (carts_table ?st')
                   \<lparr>c_userId = u, c_items = JArray ?new2, c_updatedAt = now2\<rparr>,
                 products_table := put_item p_id (products_table ?st')
                   (?pr'\<lparr>p_stock := p_stock ?pr' - q2\<rparr>)\<rparr>"
    have run2: "add_item accepts now2 ?st' u p q2 = (Reply200 (JArray ?new2), ?st2)"
      by (rule add_item_ok [OF prod' nlt2 cart' lines2 ok2])
    have "get_cart ?st2 u = Reply200 (JArray ?new2)"
      by (simp add: get_cart_def cart_value_def get_put js_or_def)
    moreover have "get_item p_id (products_table ?st2) p
        = Some (pr\<lparr>p_stock := p_stock pr - q - q2\<rparr>)"
      using key by (simp add: get_put)
    moreover have "(\<forall>i\<in>set xs. productId i \<noteq> p) \<longrightarrow>
               ?new2 = xs @ [\<lparr>productId = p, quantity = q + q2\<rparr>]"
      by (simp add: cart_after_add_twice_absent)
    moreover have "(\<exists>i\<in>set xs. productId i = p) \<longrightarrow>
               (\<exists>k<length xs. productId (xs ! k) = p \<and> (\<forall>j<k. productId (xs ! j) \<noteq> p) \<and>
                  ?new2 = xs[k := (xs ! k)\<lparr>quantity := quantity (xs ! k) + q + q2\<rparr>])"
      using cart_after_add_twice_present by blast
    ultimately show ?thesis using run2 by blast
  qed
  have "get_cart ?st' u = Reply200 (JArray ?new)"
    using cart' by (simp add: get_cart_def)
  moreover have "(\<forall>i\<in>set xs. productId i \<noteq> p) \<longrightarrow> ?new = xs @ [\<lparr>productId = p, quantity = q\<rparr>]"
    by (simp add: cart_after_add_absent)
  moreover have "(\<exists>i\<in>set xs. productId i = p) \<longrightarrow>
         (\<exists>k<length xs. productId (xs ! k) = p \<and> (\<forall>j<k. productId (xs ! j) \<noteq> p) \<and>
            ?new = xs[k := (xs ! k)\<lparr>quantity := quantity (xs ! k) + q\<rparr>])"
    using cart_after_add_present by blast
  ultimately show ?thesis using run prod' second by blast
qed

lemma seeded_cart_empty: "cart_value seeded u = JArray []"
  by (simp add: cart_value_def seeded_no_cart)

lemma shopping_eq:
  "shopping = seeded\<lparr>carts_table := [\<lparr>c_userId = ''u1'',
                c_items = JArray [\<lparr>productId = 1, quantity = 2\<rparr>],
                c_updatedAt = ''2024-05-01T10:00:00.000Z''\<rparr>],
              products_table := [smartphone\<lparr>p_stock := 48\<rparr>,
                                 ultrabook, headphones, smartwatch, tablet]\<rparr>"
proof -
  have new: "cart_after_add [] 1 (2::rat) = [\<lparr>productId = 1, quantity = 2\<rparr>]"
    by (simp add: cart_after_add_def)
  have lines: "list_all (cart_item_ok safe_number) (cart_after_add [] 1 2)"
    by (simp add: new cart_item_ok_def safe_integer_def)
  have ok: "product_ok safe_number (smartphone\<lparr>p_stock := p_stock smartphone - 2\<rparr>)"
    by (simp add: product_ok_def safe_integer_def)
  have "\<not> p_stock smartphone < 2" by simp
  from add_item_ok [OF seeded_smartphone this seeded_cart_empty lines ok]
  have "shopping = seeded\<lparr>carts_table := put_item c_userId (carts_table seeded)
                   \<lparr>c_userId = ''u1'', c_items = JArray (cart_after_add [] 1 2),
                     c_updatedAt = ''2024-05-01T10:00:00.000Z''\<rparr>,
               products_table := put_item p_id (products_table seeded)
                   (smartphone\<lparr>p_stock := p_stock smartphone - 2\<rparr>)\<rparr>"
    by (simp add: shopping_def)
  also note new
  also have "put_item p_id (products_table seeded) (smartphone\<lparr>p_stock := p_stock smartphone - 2\<rparr>)
      = [smartphone\<lparr>p_stock := 48\<rparr>, ultrabook, headphones, smartwatch, tablet]"
    by (simp add: put_item_def seeded_def sampleProducts_def smartphone_def ultrabook_def
        headphones_def smartwatch_def tablet_def)
  also have "put_item c_userId (carts_table seeded)
       \<lparr>c_userId = ''u1'', c_items = JArray [\<lparr>productId = 1, quantity = (2::rat)\<rparr>],
         c_updatedAt = ''2024-05-01T10:00:00.000Z''\<rparr>
      = [\<lparr>c_userId = ''u1'', c_items = JArray [\<lparr>productId = 1, quantity = 2\<rparr>],
          c_updatedAt = ''2024-05-01T10:00:00.000Z''\<rparr>]"
    by (simp add: put_item_def seeded_def)
  finally show ?thesis .
qed

lemma shopping_cart: "cart_value shopping ''u1'' = JArray [\<lparr>productId = 1, quantity = 2\<rparr>]"
  by (simp add: shopping_eq cart_value_def get_item_def js_or_def)

lemma shopping_smartphone:
  "get_item p_id (products_table shopping) 1 = Some (smartphone\<lparr>p_stock := 48\<rparr>)"
  by (simp add: shopping_eq get_item_def smartphone_def)

theorem add_item_merges_witness:
  "get_item p_id (products_table seeded) 1 = Some smartphone \<and>
   (2::rat) \<le> p_stock smartphone \<and>
   cart_value seeded ''u1'' = JArray [] \<and>
   list_all (cart_item_ok safe_number) (cart_after_add [] 1 2) \<and>
   product_ok safe_number (smartphone\<lparr>p_stock := p_stock smartphone - 2\<rparr>) \<and>
   fst (add_item safe_number ''2024-05-01T10:00:00.000Z'' seeded ''u1'' 1 2)
     = Reply200 (JArray [\<lparr>productId = 1, quantity = 2\<rparr>]) \<and>
   (3::rat) \<le> p_stock smartphone - 2 \<and>
   fst (add_item safe_number ''2024-05-01T10:05:00.000Z''
          (snd (add_item safe_number ''2024-05-01T10:00:00.000Z'' seeded ''u1'' 1 2)) ''u1'' 1 3)
     = Reply200 (JArray [\<lparr>productId = 1, quantity = 5\<rparr>]) \<and>
   get_item p_id (products_table shopping) 1 = Some (smartphone\<lparr>p_stock := 48\<rparr>) \<and>
   (3::rat) \<le> p_stock (smartphone\<lparr>p_stock := 48\<rparr>) \<and>
   cart_value shopping ''u1'' = JArray [\<lparr>productId = 1, quantity = 2\<rparr>] \<and>
   fst (add_item safe_number ''2024-05-01T10:05:00.000Z'' shopping ''u1'' 1 3)
     = Reply200 (JArray [\<lparr>productId = 1, quantity = 5\<rparr>]) \<and>
   get_cart (snd (add_item safe_number ''2024-05-01T10:05:00.000Z'' shopping ''u1'' 1 3)) ''u1''
     = Reply200 (JArray [\<lparr>productId = 1, quantity = 5\<rparr>]) \<and>
   get_item p_id
     (products_table (snd (add_item safe_number ''2024-05-01T10:05:00.000Z'' shopping ''u1'' 1 3))) 1
     = Some (smartphone\<lparr>p_stock := 45\<rparr>)"
proof -
  have new0: "cart_after_add [] 1 (2::rat) = [\<lparr>productId = 1, quantity = 2\<rparr>]"
    by (simp add: cart_after_add_def)
  have new1: "cart_after_add [\<lparr>productId = 1, quantity = 2::rat\<rparr>] 1 3
      = [\<lparr>productId = 1, quantity = 5\<rparr>]"
    by (simp add: cart_after_add_def)
  have le0: "(2::rat) \<le> p_stock smartphone" by simp
  have le1: "(3::rat) \<le> p_stock smartphone - 2" by simp
  have lines0: "list_all (cart_item_ok safe_number) (cart_after_add [] 1 2)"
    by (simp add: new0 cart_item_ok_def safe_integer_def)
  have ok0: "product_ok safe_number (smartphone\<lparr>p_stock := p_stock smartphone - 2\<rparr>)"
    by (simp add: product_ok_def safe_integer_def)
  have lines1: "list_all (cart_item_ok safe_number)
      (cart_after_add [\<lparr>productId = 1, quantity = 2::rat\<rparr>] 1 3)"
    by (simp add: new1 cart_item_ok_def safe_integer_def safe_number_def)
  have stock1: "safe_number (p_stock smartphone - 2 - 3)"
    by (simp add: safe_number_def)
  from add_item_merges [OF seeded_smartphone le0 seeded_cart_empty [of "''u1''"] lines0 ok0,
      of "''2024-05-01T10:00:00.000Z''"]
  obtain new st0 where
    run0: "add_item safe_number ''2024-05-01T10:00:00.000Z'' seeded ''u1'' 1 2
             = (Reply200 (JArray new), st0)"
    and new: "new = [\<lparr>productId = 1, quantity = 2\<rparr>]"
    and again: "\<forall>q2 now2.
         q2 \<le> p_stock smartphone - 2 \<and>
         list_all (cart_item_ok safe_number) (cart_after_add new 1 q2) \<and>
         safe_number (p_stock smartphone - 2 - q2) \<longrightarrow>
         (\<exists>new2 st2.
            add_item safe_number now2 st0 ''u1'' 1 q2 = (Reply200 (JArray new2), st2) \<and>
            ((\<forall>i\<in>set ([]::rat cart_item list). productId i \<noteq> 1) \<longrightarrow>
               new2 = [] @ [\<lparr>productId = 1, quantity = 2 + q2\<rparr>]))"
    by (elim exE conjE) (simp, blast)
  from again le1 lines1 stock1 new obtain st2 where
    "add_item safe_number ''2024-05-01T10:05:00.000Z'' st0 ''u1'' 1 3
       = (Reply200 (JArray [\<lparr>productId = 1, quantity = 2 + 3\<rparr>]), st2)"
    by fastforce
  with run0 new have first:
    "fst (add_item safe_number ''2024-05-01T10:00:00.000Z'' seeded ''u1'' 1 2)
       = Reply200 (JArray [\<lparr>productId = 1, quantity = 2\<rparr>])"
    "fst (add_item safe_number ''2024-05-01T10:05:00.000Z''
          (snd (add_item safe_number ''2024-05-01T10:00:00.000Z'' seeded ''u1'' 1 2)) ''u1'' 1 3)
       = Reply200 (JArray [\<lparr>productId = 1, quantity = 5\<rparr>])"
    by simp_all
  have le: "(3::rat) \<le> p_stock (smartphone\<lparr>p_stock := 48\<rparr>)" by simp
  have ok: "product_ok safe_number
      (smartphone\<lparr>p_stock := 48, p_stock := p_stock (smartphone\<lparr>p_stock := 48\<rparr>) - 3\<rparr>)"
    by (simp add: product_ok_def safe_integer_def safe_number_def)
  from add_item_merges [OF shopping_smartphone le shopping_cart lines1 ok,
      of "''2024-05-01T10:05:00.000Z''"]
  obtain new' st' where
    run: "add_item safe_number ''2024-05-01T10:05:00.000Z'' shopping ''u1'' 1 3
            = (Reply200 (JArray new'), st')"
    and cart: "get_cart st' ''u1'' = Reply200 (JArray new')"
    and stock: "get_item p_id (products_table st') 1
        = Some (smartphone\<lparr>p_stock := 48, p_stock := 48 - 3\<rparr>)"
    and new': "\<exists>k<length [\<lparr>productId = 1::int, quantity = 2::rat\<rparr>].
                new' = [\<lparr>productId = 1, quantity = 2\<rparr>]
                  [k := ([\<lparr>productId = 1, quantity = 2\<rparr>] ! k)
                     \<lparr>quantity := quantity ([\<lparr>productId = 1::int, quantity = 2::rat\<rparr>] ! k) + 3\<rparr>]"
    by auto
  from new' have "new' = [\<lparr>productId = 1, quantity = 5\<rparr>]" by auto
  with run cart stock shopping_smartphone le shopping_cart first le0 le1 seeded_smartphone
    seeded_cart_empty [of "''u1''"] lines0 ok0
  show ?thesis by simp
qed

text \<open>
  The claim as it is written fails in two ways. A cart that a replace request has
  stored as \<open>true\<close> is no list: the add answers 500 and writes nothing, for a product
  in the catalog and a quantity within its stock. And a line that stands at the
  largest safe integer cannot take one more unit: the document client refuses the
  merged cart, the add answers 500 and writes nothing.
\<close>

theorem add_item_merges_counterexample:
  "get_item p_id
     (products_table (snd (replace_cart safe_number ''2024-05-01T10:01:00.000Z'' seeded ''u1''
        (JBool True)))) 1 = Some smartphone \<and>
   (1::rat) \<le> p_stock smartphone \<and>
   add_item safe_number ''2024-05-01T10:05:00.000Z''
     (snd (replace_cart safe_number ''2024-05-01T10:01:00.000Z'' seeded ''u1'' (JBool True)))
     ''u1'' 1 1
   = (ReplyError 500 ''Failed to add to cart'',
      snd (replace_cart safe_number ''2024-05-01T10:01:00.000Z'' seeded ''u1'' (JBool True))) \<and>
   cart_value
     (snd (replace_cart safe_number ''2024-05-01T10:01:00.000Z'' seeded ''u1''
        (JArray [\<lparr>productId = 1, quantity = 9007199254740991\<rparr>]))) ''u1''
   = JArray [\<lparr>productId = 1, quantity = 9007199254740991\<rparr>] \<and>
   add_item safe_number ''2024-05-01T10:05:00.000Z''
     (snd (replace_cart safe_number ''2024-05-01T10:01:00.000Z'' seeded ''u1''
        (JArray [\<lparr>productId = 1, quantity = 9007199254740991\<rparr>])))
     ''u1'' 1 1
   = (ReplyError 500 ''Failed to add to cart'',
      snd (replace_cart safe_number ''2024-05-01T10:01:00.000Z'' seeded ''u1''
        (JArray [\<lparr>productId = 1, quantity = 9007199254740991\<rparr>])))"
proof -
  have a: "replace_cart safe_number ''2024-05-01T10:01:00.000Z'' seeded ''u1'' (JBool True)
      = (Reply200 (JBool True),
         seeded\<lparr>carts_table := [\<lparr>c_userId = ''u1'', c_items = JBool True,
                    c_updatedAt = ''2024-05-01T10:01:00.000Z''\<rparr>]\<rparr>)"
    by (simp add: replace_cart_def js_or_def put_item_def seeded_def)
  have b: "replace_cart safe_number ''2024-05-01T10:01:00.000Z'' seeded ''u1''
        (JArray [\<lparr>productId = 1, quantity = 9007199254740991\<rparr>])
      = (Reply200 (JArray [\<lparr>productId = 1, quantity = 9007199254740991\<rparr>]),
         seeded\<lparr>carts_table := [\<lparr>c_userId = ''u1'',
                    c_items = JArray [\<lparr>productId = 1, quantity = 9007199254740991\<rparr>],
                    c_updatedAt = ''2024-05-01T10:01:00.000Z''\<rparr>]\<rparr>)"
    by (simp add: replace_cart_def js_or_def put_item_def seeded_def cart_item_ok_def
        safe_integer_def safe_number_def)
  let ?A = "seeded\<lparr>carts_table := [\<lparr>c_userId = ''u1'', c_items = JBool True,
                    c_updatedAt = ''2024-05-01T10:01:00.000Z''\<rparr>]\<rparr>"
  let ?B = "seeded\<lparr>carts_table := [\<lparr>c_userId = ''u1'',
                    c_items = JArray [\<lparr>productId = 1, quantity = 9007199254740991\<rparr>],
                    c_updatedAt = ''2024-05-01T10:01:00.000Z''\<rparr>]\<rparr>"
  have pa: "get_item p_id (products_table ?A) 1 = Some smartphone"
    using seeded_smartphone by simp
  have pb: "get_item p_id (products_table ?B) 1 = Some smartphone"
    using seeded_smartphone by simp
  have ca: "cart_value ?A ''u1'' = JBool True"
    by (simp add: cart_value_def get_item_def js_or_def)
  have cb: "cart_value ?B ''u1'' = JArray [\<lparr>productId = 1, quantity = 9007199254740991\<rparr>]"
    by (simp add: cart_value_def get_item_def js_or_def)
  have ra: "add_item safe_number ''2024-05-01T10:05:00.000Z'' ?A ''u1'' 1 1
      = (ReplyError 500 ''Failed to add to cart'', ?A)"
    by (simp add: add_item_def get_product_def seeded_smartphone ca)
  have rb: "add_item safe_number ''2024-05-01T10:05:00.000Z'' ?B ''u1'' 1 1
      = (ReplyError 500 ''Failed to add to cart'', ?B)"
    by (simp add: add_item_def get_product_def seeded_smartphone cb cart_item_ok_def
        safe_number_def)
  from pa ca cb ra rb show ?thesis
    unfolding a b by simp
qed

text \<open>
  C3: for a product present in the catalog and a quantity above its stock,
  \<open>POST /api/cart/:userId/add\<close> answers 400 \<open>Insufficient stock\<close> and the state,
  the user's cart and the product's stock in it, is the one before the request.
\<close>

theorem add_item_insufficient_stock:
  assumes "get_item p_id (products_table st) p = Some pr"
      and "p_stock pr < q"
  shows "add_item accepts now st u p q = (ReplyError 400 ''Insufficient stock'', st)"
  using assms by (simp add: add_item_def get_product_def)

theorem add_item_insufficient_stock_witness:
  "get_item p_id (products_table seeded) 1 = Some smartphone \<and>
   p_stock smartphone < 51 \<and>
   add_item safe_number ''2024-05-01T10:00:00.000Z'' seeded ''u1'' 1 51
     = (ReplyError 400 ''Insufficient stock'', seeded)"
proof -
  have lt: "p_stock smartphone < 51" by (simp add: smartphone_def)
  from add_item_insufficient_stock [OF seeded_smartphone lt] seeded_smartphone lt
  show ?thesis by simp
qed

subsection \<open>Clearing the cart\<close>

text \<open>
  C6, as the code has it: two \<open>DELETE /api/cart/:userId\<close> in sequence both answer
  200 and both leave the user with the empty cart, which \<open>GET /api/cart/:userId\<close>
  returns after each. The record stored by each call has the user's id, the empty
  array as items and the clock reading of that call as \<open>updatedAt\<close>; the records of
  the other users, the products and the orders are the same after both calls. The two
  stored records therefore agree in everything but \<open>updatedAt\<close>.
\<close>

theorem delete_cart_twice:
  "carts_table (snd (delete_cart t1 st u))
     = \<lparr>c_userId = u, c_items = JArray [], c_updatedAt = t1\<rparr>
         # filter (\<lambda>r. c_userId r \<noteq> u) (carts_table st) \<and>
   carts_table (snd (delete_cart t2 (snd (delete_cart t1 st u)) u))
     = \<lparr>c_userId = u, c_items = JArray [], c_updatedAt = t2\<rparr>
         # filter (\<lambda>r. c_userId r \<noteq> u) (carts_table st) \<and>
   get_cart (snd (delete_cart t1 st u)) u = Reply200 (JArray []) \<and>
   get_cart (snd (delete_cart t2 (snd (delete_cart t1 st u)) u)) u = Reply200 (JArray []) \<and>
   fst (delete_cart t1 st u) = Reply200 () \<and>
   fst (delete_cart t2 (snd (delete_cart t1 st u)) u) = Reply200 () \<and>
   products_table (snd (delete_cart t2 (snd (delete_cart t1 st u)) u)) = products_table st \<and>
   orders_table (snd (delete_cart t2 (snd (delete_cart t1 st u)) u)) = orders_table st"
  by (simp add: delete_cart_def put_item_def get_cart_def cart_value_def get_item_def js_or_def)

theorem delete_cart_twice_witness:
  "carts_table (snd (delete_cart ''2024-05-01T10:10:01.000Z''
       (snd (delete_cart ''2024-05-01T10:10:00.000Z'' shopping ''u1'')) ''u1''))
     = [\<lparr>c_userId = ''u1'', c_items = JArray [], c_updatedAt = ''2024-05-01T10:10:01.000Z''\<rparr>] \<and>
   get_cart (snd (delete_cart ''2024-05-01T10:10:01.000Z''
       (snd (delete_cart ''2024-05-01T10:10:00.000Z'' shopping ''u1'')) ''u1'')) ''u1''
     = Reply200 (JArray [])"
  using delete_cart_twice [of "''2024-05-01T10:10:00.000Z''" shopping "''u1''"
      "''2024-05-01T10:10:01.000Z''"]
  by (simp add: shopping_eq)

text \<open>
  The claim as it is written fails: the record stored by the second call is not the
  record stored by the first when the clock has moved between the calls.
\<close>

theorem delete_cart_twice_counterexample:
  "get_item c_userId
     (carts_table (snd (delete_cart ''2024-05-01T10:10:01.000Z''
        (snd (delete_cart ''2024-05-01T10:10:00.000Z'' seeded ''u1'')) ''u1''))) ''u1''
   \<noteq> get_item c_userId
     (carts_table (snd (delete_cart ''2024-05-01T10:10:00.000Z'' seeded ''u1''))) ''u1''"
  by (simp add: delete_cart_def get_put)

subsection \<open>The items of a stored cart\<close>

lemma carts_ok_put:
  "carts_ok st \<Longrightarrow> is_array (c_items r) \<Longrightarrow>
   carts_ok (st\<lparr>carts_table := put_item c_userId (carts_table st) r\<rparr>)"
  by (simp add: carts_ok_def put_item_def list_all_iff)

lemma carts_ok_put_stock: "carts_ok (snd (put_stock accepts st p s)) = carts_ok st"
  by (simp add: carts_ok_def put_stock_carts)

lemma is_array_js_or: "is_array v \<or> \<not> truthy v \<Longrightarrow> is_array (js_or v (JArray []))"
  by (cases v) (auto simp: js_or_def)

lemma snd_case_reply:
  "snd (case r of (Reply200 x, st2) \<Rightarrow> (f x st2, st2) | (ReplyError c m, st2) \<Rightarrow> (g c m st2, st2))
     = snd r"
  by (simp split: prod.splits reply.splits)

lemma carts_ok_add_item:
  assumes "carts_ok st"
  shows "carts_ok (snd (add_item accepts now st u p q))"
proof (cases "get_product st p")
  case (ReplyError c m)
  with assms show ?thesis by (simp add: add_item_def)
next
  case (Reply200 product)
  show ?thesis
  proof (cases "p_stock product < q")
    case True
    with Reply200 assms show ?thesis by (simp add: add_item_def)
  next
    case False
    show ?thesis
    proof (cases "cart_value st u")
      case (JArray cartItems)
      with Reply200 False assms show ?thesis
        by (simp add: add_item_def Let_def snd_case_reply carts_ok_put_stock carts_ok_put)
    qed (use Reply200 False assms in \<open>simp_all add: add_item_def\<close>)
  qed
qed

lemma carts_ok_run_op:
  "carts_ok st \<Longrightarrow> list_or_falsy op \<Longrightarrow> carts_ok (run_op accepts st op)"
proof (cases op)
  case (AddItem now u p q)
  assume "carts_ok st"
  then show ?thesis by (simp add: AddItem carts_ok_add_item)
next
  case (ReplaceCart now u v)
  assume "carts_ok st" "list_or_falsy op"
  then show ?thesis
    by (simp add: ReplaceCart replace_cart_def carts_ok_put is_array_js_or)
next
  case (ClearCart now u)
  assume "carts_ok st"
  then show ?thesis by (simp add: ClearCart delete_cart_def carts_ok_put)
qed

lemma carts_ok_run_ops:
  "carts_ok st \<Longrightarrow> list_all list_or_falsy ops \<Longrightarrow> carts_ok (foldl (run_op accepts) st ops)"
  by (induction ops arbitrary: st) (simp_all add: carts_ok_run_op)

lemma carts_ok_cart_value: "carts_ok st \<Longrightarrow> is_array (cart_value st u)"
proof -
  assume ok: "carts_ok st"
  show ?thesis
  proof (cases "get_item c_userId (carts_table st) u")
    case None
    then show ?thesis by (simp add: cart_value_def)
  next
    case (Some r)
    then have "r \<in> set (carts_table st)" by (rule get_item_mem)
    with ok have "is_array (c_items r)" by (simp add: carts_ok_def list_all_iff)
    with Some show ?thesis by (simp add: cart_value_def is_array_js_or)
  qed
qed

text \<open>
  C9, as the code has it: \<open>PUT /api/cart/:userId\<close> with a body whose \<open>items\<close> is
  missing, \<open>null\<close> or another falsy value answers 200 and stores the empty array. From
  a carts table in which every record's items is an array, any sequence of add,
  replace and clear requests in which every replace body's \<open>items\<close> is an array or
  falsy leaves such a table, and \<open>GET /api/cart/:userId\<close> then answers 200 with an
  array for every user.
\<close>

theorem cart_items_always_list:
  fixes st :: "'n::{zero,plus,minus,ord} state"
  assumes "carts_ok st"
      and "list_all list_or_falsy ops"
  shows "carts_ok (foldl (run_op accepts) st ops) \<and>
         returns_list (get_cart (foldl (run_op accepts) st ops) u) \<and>
         (\<forall>now v. \<not> truthy v \<longrightarrow>
            fst (replace_cart accepts now st u v) = Reply200 v \<and>
            get_item c_userId (carts_table (snd (replace_cart accepts now st u v))) u
              = Some \<lparr>c_userId = u, c_items = JArray [], c_updatedAt = now\<rparr>)"
proof -
  have ok: "carts_ok (foldl (run_op accepts) st ops)"
    using assms by (rule carts_ok_run_ops)
  then have "returns_list (get_cart (foldl (run_op accepts) st ops) u)"
    by (simp add: returns_list_def get_cart_def carts_ok_cart_value)
  moreover have "\<forall>now v. \<not> truthy v \<longrightarrow>
            fst (replace_cart accepts now st u v) = Reply200 v \<and>
            get_item c_userId (carts_table (snd (replace_cart accepts now st u v))) u
              = Some \<lparr>c_userId = u, c_items = JArray [], c_updatedAt = now\<rparr>"
    by (simp add: replace_cart_def js_or_def get_put)
  ultimately show ?thesis using ok by blast
qed

theorem cart_items_always_list_witness:
  "carts_ok seeded \<and>
   list_all list_or_falsy
     [AddItem ''2024-05-01T10:00:00.000Z'' ''u1'' 1 2,
      ReplaceCart ''2024-05-01T10:01:00.000Z'' ''u1'' JNull,
      ReplaceCart ''2024-05-01T10:02:00.000Z'' ''u2'' (JArray [\<lparr>productId = 2, quantity = 1\<rparr>]),
      ClearCart ''2024-05-01T10:03:00.000Z'' ''u2''] \<and>
   returns_list (get_cart (foldl (run_op safe_number) seeded
     [AddItem ''2024-05-01T10:00:00.000Z'' ''u1'' 1 2,
      ReplaceCart ''2024-05-01T10:01:00.000Z'' ''u1'' JNull,
      ReplaceCart ''2024-05-01T10:02:00.000Z'' ''u2'' (JArray [\<lparr>productId = 2, quantity = 1\<rparr>]),
      ClearCart ''2024-05-01T10:03:00.000Z'' ''u2'']) ''u1'') \<and>
   \<not> truthy (JNull :: rat items_value) \<and>
   get_item c_userId
     (carts_table (snd (replace_cart safe_number ''2024-05-01T10:01:00.000Z'' seeded ''u1'' JNull)))
     ''u1''
     = Some \<lparr>c_userId = ''u1'', c_items = JArray [], c_updatedAt = ''2024-05-01T10:01:00.000Z''\<rparr>"
proof -
  have ok: "carts_ok seeded" by (simp add: carts_ok_def seeded_def)
  have ops: "list_all list_or_falsy
     [AddItem ''2024-05-01T10:00:00.000Z'' ''u1'' 1 (2::rat),
      ReplaceCart ''2024-05-01T10:01:00.000Z'' ''u1'' JNull,
      ReplaceCart ''2024-05-01T10:02:00.000Z'' ''u2'' (JArray [\<lparr>productId = 2, quantity = 1\<rparr>]),
      ClearCart ''2024-05-01T10:03:00.000Z'' ''u2'']"
    by simp
  from cart_items_always_list [OF ok ops, of safe_number "''u1''"] ok ops show ?thesis
    by simp
qed

text \<open>
  The claim as it is written fails: a replace body whose \<open>items\<close> is \<open>true\<close> is
  stored as it is, and the cart then read back is not a list.
\<close>

theorem cart_items_always_list_counterexample:
  "\<not> carts_ok (foldl (run_op safe_number) seeded
        [ReplaceCart ''2024-05-01T10:01:00.000Z'' ''u1'' (JBool True)]) \<and>
   get_cart (foldl (run_op safe_number) seeded
        [ReplaceCart ''2024-05-01T10:01:00.000Z'' ''u1'' (JBool True)]) ''u1''
     = Reply200 (JBool True) \<and>
   \<not> returns_list
       (get_cart (foldl (run_op safe_number) seeded
          [ReplaceCart ''2024-05-01T10:01:00.000Z'' ''u1'' (JBool True)]) ''u1'')"
  by (simp add: replace_cart_def seeded_def put_item_def carts_ok_def get_cart_def
      cart_value_def get_item_def js_or_def returns_list_def)

section \<open>Order service\<close>

lemma order_loop_result:
  "map (\<lambda>i. get_item p_id (products_table st) (productId i)) xs = map Some ps \<Longrightarrow>
   order_loop st xs t acc =
     Some (foldl (+) t (map2 (\<lambda>p i. p_price p * quantity i) ps xs),
           acc @ map2 order_line ps xs)"
proof (induction xs arbitrary: ps t acc)
  case Nil
  then show ?case by simp
next
  case (Cons x xs)
  from Cons.prems obtain p ps' where ps: "ps = p # ps'"
    and p: "get_item p_id (products_table st) (productId x) = Some p"
    and rest: "map (\<lambda>i. get_item p_id (products_table st) (productId i)) xs = map Some ps'"
    by (cases ps) auto
  from Cons.IH [OF rest] p show ?case
    by (simp add: ps get_product_def Let_def order_line_def)
qed

text \<open>In exact arithmetic the running sum of the loop is the sum of the list.\<close>

lemma foldl_plus_sum_list:
  fixes t :: "'a::monoid_add"
  shows "foldl (+) t ys = t + sum_list ys"
  by (induction ys arbitrary: t) (simp_all add: add.assoc)

lemma path_param_plain: "path_param ''u1'' = Some ''u1''"
  by (simp add: path_param_def plain_char_def)

lemma path_param_query: "path_param ''u1?x'' = Some ''u1''"
  by (simp add: path_param_def plain_char_def)

lemma create_order_run:
  fixes st :: "'n::{zero,plus,times,ord} state"
  assumes "route u = Some cu"
      and "cart_value st cu = JArray xs"
      and "xs \<noteq> []"
      and "map (\<lambda>i. get_item p_id (products_table st) (productId i)) xs = map Some ps"
      and "list_all (order_item_ok accepts) (map2 order_line ps xs)"
      and "accepts (foldl (+) 0 (map2 (\<lambda>p i. p_price p * quantity i) ps xs))"
  shows "create_order accepts route now oid cartNow st u cust =
     (if foldl (+) 0 (map2 (\<lambda>p i. p_price p * quantity i) ps xs) < 0
      then ReplyError 500 ''Failed to create order''
      else Reply200
        \<lparr>o_id = oid, o_userId = u, o_date = now, o_customer = cust,
           o_items = map2 order_line ps xs,
           o_total = foldl (+) 0 (map2 (\<lambda>p i. p_price p * quantity i) ps xs),
           o_status = ''Confirmed''\<rparr>,
      st\<lparr>orders_table := put_item o_id (orders_table st)
           \<lparr>o_id = oid, o_userId = u, o_date = now, o_customer = cust,
              o_items = map2 order_line ps xs,
              o_total = foldl (+) 0 (map2 (\<lambda>p i. p_price p * quantity i) ps xs),
              o_status = ''Confirmed''\<rparr>,
         carts_table := put_item c_userId (carts_table st)
           \<lparr>c_userId = cu, c_items = JArray [], c_updatedAt = cartNow\<rparr>\<rparr>)"
  using assms(1,2,3,5,6) order_loop_result [OF assms(4), of 0 "[]"]
  by (simp add: create_order_def get_cart_def Let_def delete_cart_def order_ok_def)

text \<open>
  C2, as the code has it: let \<open>cu\<close> be the user id that the cart service's router
  sees for \<open>/api/cart/\<close> followed by \<open>u\<close> (it is \<open>u\<close> itself for an id of letters,
  digits, \<open>-\<close> and \<open>_\<close>, such as the UUIDs of the frontend), let the cart of \<open>cu\<close> be
  a non-empty list \<open>xs\<close> of lines, \<open>ps\<close> the records that the catalog now holds for
  the products of these lines, and let the document client accept the numbers of the
  order. Then \<open>POST /api/orders\<close> stores under the new order id an order whose total
  is the sum, accumulated from 0 in the order of the cart, of the current price times
  the quantity of each line, and whose items carry, line by line, that product as item
  total, the line's quantity and the current price, so that every item total is its
  price times its quantity; the cart of \<open>cu\<close> read afterwards is the empty array; and
  when the total is not negative the reply is 200 with that order. No price is kept
  in a cart line: the price is the one of the catalog at the time of the order.
\<close>

theorem create_order_total:
  fixes st :: "'n::{zero,plus,times,ord} state"
  assumes "route u = Some cu"
      and "cart_value st cu = JArray xs"
      and "xs \<noteq> []"
      and "map (\<lambda>i. get_item p_id (products_table st) (productId i)) xs = map Some ps"
      and "list_all (order_item_ok accepts) (map2 order_line ps xs)"
      and "accepts (foldl (+) 0 (map2 (\<lambda>p i. p_price p * quantity i) ps xs))"
  shows "\<exists>order st'.
      snd (create_order accepts route now oid cartNow st u cust) = st' \<and>
      get_item o_id (orders_table st') oid = Some order \<and>
      o_userId order = u \<and>
      o_total order = foldl (+) 0 (map2 (\<lambda>p i. p_price p * quantity i) ps xs) \<and>
      map oi_itemTotal (o_items order) = map2 (\<lambda>p i. p_price p * quantity i) ps xs \<and>
      map oi_quantity (o_items order) = map quantity xs \<and>
      map (\<lambda>l. op_price (oi_product l)) (o_items order) = map p_price ps \<and>
      list_all (\<lambda>l. oi_itemTotal l = op_price (oi_product l) * oi_quantity l) (o_items order) \<and>
      get_cart st' cu = Reply200 (JArray []) \<and>
      (\<not> o_total order < 0 \<longrightarrow>
         fst (create_order accepts route now oid cartNow st u cust) = Reply200 order)"
proof -
  have len: "length ps = length xs"
    using assms(4) by (metis length_map)
  let ?total = "foldl (+) 0 (map2 (\<lambda>p i. p_price p * quantity i) ps xs)"
  let ?order = "\<lparr>o_id = oid, o_userId = u, o_date = now, o_customer = cust,
                  o_items = map2 order_line ps xs, o_total = ?total,
                  o_status = ''Confirmed''\<rparr>"
  let ?st' = "st\<lparr>orders_table := put_item o_id (orders_table st) ?order,
                 carts_table := put_item c_userId (carts_table st)
                   \<lparr>c_userId = cu, c_items = JArray [], c_updatedAt = cartNow\<rparr>\<rparr>"
  note run = create_order_run [where route = route and accepts = accepts, OF assms,
      of now oid cartNow cust]
  have s: "snd (create_order accepts route now oid cartNow st u cust) = ?st'"
    by (simp add: run)
  have r: "\<not> ?total < 0 \<longrightarrow>
      fst (create_order accepts route now oid cartNow st u cust) = Reply200 ?order"
    by (simp add: run)
  have a: "map oi_itemTotal (map2 order_line ps xs) = map2 (\<lambda>p i. p_price p * quantity i) ps xs"
    using len by (induction ps xs rule: list_induct2) (simp_all add: order_line_def)
  have b: "map oi_quantity (map2 order_line ps xs) = map quantity xs"
    using len by (induction ps xs rule: list_induct2) (simp_all add: order_line_def)
  have c: "map (\<lambda>l. op_price (oi_product l)) (map2 order_line ps xs) = map p_price ps"
    using len by (induction ps xs rule: list_induct2) (simp_all add: order_line_def)
  have d: "list_all (\<lambda>l. oi_itemTotal l = op_price (oi_product l) * oi_quantity l)
             (map2 order_line ps xs)"
    using len by (induction ps xs rule: list_induct2) (simp_all add: order_line_def)
  have e: "get_item o_id (orders_table ?st') oid = Some ?order"
    using get_put_same [of o_id "orders_table st" ?order] by simp
  have f: "get_cart ?st' cu = Reply200 (JArray [])"
    by (simp add: get_cart_def cart_value_def get_put js_or_def)
  from s r a b c d e f show ?thesis
    by (intro exI [of _ ?order] exI [of _ ?st']) simp
qed

lemma shopping_lines:
  "map (\<lambda>i. get_item p_id (products_table shopping) (productId i))
       [\<lparr>productId = 1, quantity = 2\<rparr>] = map Some [smartphone\<lparr>p_stock := 48\<rparr>]"
  by (simp add: shopping_smartphone)

lemma shopping_order_ok:
  "list_all (order_item_ok safe_number)
     (map2 order_line [smartphone\<lparr>p_stock := 48\<rparr>] [\<lparr>productId = 1, quantity = 2\<rparr>])"
  "safe_number (foldl (+) 0 (map2 (\<lambda>p i. p_price p * quantity i)
     [smartphone\<lparr>p_stock := 48\<rparr>] [\<lparr>productId = 1, quantity = 2\<rparr>]))"
  by (simp_all add: order_item_ok_def order_line_def safe_integer_def safe_number_def)

theorem create_order_total_witness:
  "path_param ''u1'' = Some ''u1'' \<and>
   cart_value shopping ''u1'' = JArray [\<lparr>productId = 1, quantity = 2\<rparr>] \<and>
   [\<lparr>productId = 1::int, quantity = 2::rat\<rparr>] \<noteq> [] \<and>
   map (\<lambda>i. get_item p_id (products_table shopping) (productId i))
       [\<lparr>productId = 1, quantity = 2\<rparr>] = map Some [smartphone\<lparr>p_stock := 48\<rparr>] \<and>
   list_all (order_item_ok safe_number)
     (map2 order_line [smartphone\<lparr>p_stock := 48\<rparr>] [\<lparr>productId = 1, quantity = 2\<rparr>]) \<and>
   safe_number (foldl (+) 0 (map2 (\<lambda>p i. p_price p * quantity i)
     [smartphone\<lparr>p_stock := 48\<rparr>] [\<lparr>productId = 1, quantity = 2\<rparr>])) \<and>
   (\<exists>order.
      fst (create_order safe_number path_param ''2024-05-01T10:20:00.000Z'' ''order-1''
             ''2024-05-01T10:20:01.000Z'' shopping ''u1''
             \<lparr>cu_name = ''A'', cu_email = ''a@x.com'', cu_address = ''1 Main St''\<rparr>)
        = Reply200 order \<and>
      get_item o_id
        (orders_table (snd (create_order safe_number path_param ''2024-05-01T10:20:00.000Z''
             ''order-1'' ''2024-05-01T10:20:01.000Z'' shopping ''u1''
             \<lparr>cu_name = ''A'', cu_email = ''a@x.com'', cu_address = ''1 Main St''\<rparr>)))
        ''order-1'' = Some order \<and>
      o_total order = 139998 / 100 \<and>
      map oi_itemTotal (o_items order) = [139998 / 100]) \<and>
   get_cart (snd (create_order safe_number path_param ''2024-05-01T10:20:00.000Z''
             ''order-1'' ''2024-05-01T10:20:01.000Z'' shopping ''u1''
             \<lparr>cu_name = ''A'', cu_email = ''a@x.com'', cu_address = ''1 Main St''\<rparr>)) ''u1''
     = Reply200 (JArray [])"
proof -
  have ne: "[\<lparr>productId = 1::int, quantity = 2::rat\<rparr>] \<noteq> []" by simp
  let ?run = "create_order safe_number path_param ''2024-05-01T10:20:00.000Z''
             ''order-1'' ''2024-05-01T10:20:01.000Z'' shopping ''u1''
             \<lparr>cu_name = ''A'', cu_email = ''a@x.com'', cu_address = ''1 Main St''\<rparr>"
  from create_order_total [where route = path_param and accepts = safe_number,
      OF path_param_plain shopping_cart ne shopping_lines shopping_order_ok,
      of "''2024-05-01T10:20:00.000Z''" "''order-1''" "''2024-05-01T10:20:01.000Z''"
      "\<lparr>cu_name = ''A'', cu_email = ''a@x.com'', cu_address = ''1 Main St''\<rparr>"]
  obtain order where
    stored: "get_item o_id (orders_table (snd ?run)) ''order-1'' = Some order"
    and tot: "o_total order = 139998 / 100"
    and lines: "map oi_itemTotal (o_items order) = [139998 / 100]"
    and cart: "get_cart (snd ?run) ''u1'' = Reply200 (JArray [])"
    and reply: "\<not> o_total order < 0 \<longrightarrow> fst ?run = Reply200 order"
    by auto
  from tot reply have "fst ?run = Reply200 order" by simp
  with stored tot lines have "\<exists>order.
      fst ?run = Reply200 order \<and>
      get_item o_id (orders_table (snd ?run)) ''order-1'' = Some order \<and>
      o_total order = 139998 / 100 \<and>
      map oi_itemTotal (o_items order) = [139998 / 100]"
    by (intro exI [of _ order]) simp
  with cart path_param_plain shopping_cart ne shopping_lines shopping_order_ok
  show ?thesis by simp
qed

lemma negative_cart_eq:
  "add_item safe_number ''2024-05-01T10:00:00.000Z'' seeded ''u1'' 1 (- 2)
     = (Reply200 (JArray [\<lparr>productId = 1, quantity = - 2\<rparr>]),
        seeded\<lparr>carts_table := [\<lparr>c_userId = ''u1'',
                c_items = JArray [\<lparr>productId = 1, quantity = - 2\<rparr>],
                c_updatedAt = ''2024-05-01T10:00:00.000Z''\<rparr>],
              products_table := [smartphone\<lparr>p_stock := 52\<rparr>,
                                 ultrabook, headphones, smartwatch, tablet]\<rparr>)"
proof -
  have new: "cart_after_add [] 1 (- 2 :: rat) = [\<lparr>productId = 1, quantity = - 2\<rparr>]"
    by (simp add: cart_after_add_def)
  have lines: "list_all (cart_item_ok safe_number) (cart_after_add [] 1 (- 2))"
    by (simp add: new cart_item_ok_def safe_integer_def safe_number_def)
  have ok: "product_ok safe_number (smartphone\<lparr>p_stock := p_stock smartphone - (- 2)\<rparr>)"
    by (simp add: product_ok_def safe_integer_def safe_number_def)
  have "\<not> p_stock smartphone < - 2" by simp
  from add_item_ok [OF seeded_smartphone this seeded_cart_empty lines ok]
  have "add_item safe_number ''2024-05-01T10:00:00.000Z'' seeded ''u1'' 1 (- 2)
     = (Reply200 (JArray (cart_after_add [] 1 (- 2))),
        seeded\<lparr>carts_table := put_item c_userId (carts_table seeded)
                   \<lparr>c_userId = ''u1'', c_items = JArray (cart_after_add [] 1 (- 2)),
                     c_updatedAt = ''2024-05-01T10:00:00.000Z''\<rparr>,
               products_table := put_item p_id (products_table seeded)
                   (smartphone\<lparr>p_stock := p_stock smartphone - (- 2)\<rparr>)\<rparr>)" .
  also note new
  also have "put_item p_id (products_table seeded)
        (smartphone\<lparr>p_stock := p_stock smartphone - (- 2)\<rparr>)
      = [smartphone\<lparr>p_stock := 52\<rparr>, ultrabook, headphones, smartwatch, tablet]"
    by (simp add: put_item_def seeded_def sampleProducts_def smartphone_def ultrabook_def
        headphones_def smartwatch_def tablet_def)
  also have "put_item c_userId (carts_table seeded)
       \<lparr>c_userId = ''u1'', c_items = JArray [\<lparr>productId = 1, quantity = (- 2::rat)\<rparr>],
         c_updatedAt = ''2024-05-01T10:00:00.000Z''\<rparr>
      = [\<lparr>c_userId = ''u1'', c_items = JArray [\<lparr>productId = 1, quantity = - 2\<rparr>],
          c_updatedAt = ''2024-05-01T10:00:00.000Z''\<rparr>]"
    by (simp add: put_item_def seeded_def)
  finally show ?thesis .
qed

text \<open>
  The claim as it is written fails: the cart service's own add takes the quantity
  \<open>-2\<close>, the user's cart is then the non-empty list of that one line for a product
  of the catalog, and the order request answers 500, because the total is negative.
\<close>

theorem create_order_total_counterexample:
  "fst (add_item safe_number ''2024-05-01T10:00:00.000Z'' seeded ''u1'' 1 (- 2))
     = Reply200 (JArray [\<lparr>productId = 1, quantity = - 2\<rparr>]) \<and>
   cart_value negative_cart ''u1'' = JArray [\<lparr>productId = 1, quantity = - 2\<rparr>] \<and>
   get_item p_id (products_table negative_cart) 1 = Some (smartphone\<lparr>p_stock := 52\<rparr>) \<and>
   fst (create_order safe_number path_param ''2024-05-01T10:20:00.000Z'' ''order-1''
          ''2024-05-01T10:20:01.000Z'' negative_cart ''u1''
          \<lparr>cu_name = ''A'', cu_email = ''a@x.com'', cu_address = ''1 Main St''\<rparr>)
     = ReplyError 500 ''Failed to create order''"
proof -
  have st: "negative_cart = seeded\<lparr>carts_table := [\<lparr>c_userId = ''u1'',
                c_items = JArray [\<lparr>productId = 1, quantity = - 2\<rparr>],
                c_updatedAt = ''2024-05-01T10:00:00.000Z''\<rparr>],
              products_table := [smartphone\<lparr>p_stock := 52\<rparr>,
                                 ultrabook, headphones, smartwatch, tablet]\<rparr>"
    by (simp add: negative_cart_def negative_cart_eq)
  have cart: "cart_value negative_cart ''u1'' = JArray [\<lparr>productId = 1, quantity = - 2\<rparr>]"
    by (simp add: st cart_value_def get_item_def js_or_def)
  have prod: "get_item p_id (products_table negative_cart) 1 = Some (smartphone\<lparr>p_stock := 52\<rparr>)"
    by (simp add: st get_item_def smartphone_def)
  have ne: "[\<lparr>productId = 1::int, quantity = - 2::rat\<rparr>] \<noteq> []" by simp
  have lines: "map (\<lambda>i. get_item p_id (products_table negative_cart) (productId i))
       [\<lparr>productId = 1, quantity = - 2\<rparr>] = map Some [smartphone\<lparr>p_stock := 52\<rparr>]"
    by (simp add: prod)
  have ok: "list_all (order_item_ok safe_number)
       (map2 order_line [smartphone\<lparr>p_stock := 52\<rparr>] [\<lparr>productId = 1, quantity = - 2\<rparr>])"
    "safe_number (foldl (+) 0 (map2 (\<lambda>p i. p_price p * quantity i)
       [smartphone\<lparr>p_stock := 52\<rparr>] [\<lparr>productId = 1, quantity = - 2\<rparr>]))"
    by (simp_all add: order_item_ok_def order_line_def safe_integer_def safe_number_def)
  have "fst (create_order safe_number path_param ''2024-05-01T10:20:00.000Z'' ''order-1''
          ''2024-05-01T10:20:01.000Z'' negative_cart ''u1''
          \<lparr>cu_name = ''A'', cu_email = ''a@x.com'', cu_address = ''1 Main St''\<rparr>)
     = ReplyError 500 ''Failed to create order''"
    by (simp add: create_order_run [where route = path_param and accepts = safe_number,
          OF path_param_plain cart ne lines ok])
  with cart prod show ?thesis by (simp add: negative_cart_eq)
qed

text \<open>
  C4, as the code has it: let \<open>cu\<close> be the user id that the cart service's router
  sees for \<open>/api/cart/\<close> followed by \<open>u\<close> (it is \<open>u\<close> itself for an id of letters,
  digits, \<open>-\<close> and \<open>_\<close>, such as the UUIDs of the frontend). When the cart of \<open>cu\<close>
  is empty, \<open>POST /api/orders\<close> answers 400 \<open>Cart is empty\<close> and the state, the orders
  table in it, is the one before the request.
\<close>

theorem create_order_empty_cart:
  assumes "route u = Some cu"
      and "cart_value st cu = JArray []"
  shows "create_order accepts route now oid cartNow st u cust
           = (ReplyError 400 ''Cart is empty'', st)"
  using assms by (simp add: create_order_def get_cart_def)

theorem create_order_empty_cart_witness:
  "path_param ''u1'' = Some ''u1'' \<and>
   cart_value seeded ''u1'' = JArray [] \<and>
   create_order safe_number path_param ''2024-05-01T10:20:00.000Z'' ''order-1''
     ''2024-05-01T10:20:01.000Z'' seeded ''u1''
     \<lparr>cu_name = ''A'', cu_email = ''a@x.com'', cu_address = ''1 Main St''\<rparr>
     = (ReplyError 400 ''Cart is empty'', seeded)"
  using create_order_empty_cart [where route = path_param and accepts = safe_number,
      OF path_param_plain seeded_cart_empty]
    path_param_plain seeded_cart_empty [of "''u1''"]
  by simp

text \<open>
  The claim as it is written fails: the user id \<open>u1?x\<close> has no cart record, so its
  cart is empty, but the URL \<open>/api/cart/u1?x\<close> is a request for the cart of \<open>u1\<close>,
  which holds a line. The order request answers 200, stores an order and clears the
  cart of \<open>u1\<close>.
\<close>

theorem create_order_empty_cart_counterexample:
  "cart_value shopping ''u1?x'' = JArray [] \<and>
   cart_value shopping ''u1'' = JArray [\<lparr>productId = 1, quantity = 2\<rparr>] \<and>
   status_code (fst (create_order safe_number path_param ''2024-05-01T10:20:00.000Z''
      ''order-1'' ''2024-05-01T10:20:01.000Z'' shopping ''u1?x''
      \<lparr>cu_name = ''A'', cu_email = ''a@x.com'', cu_address = ''1 Main St''\<rparr>)) = 200 \<and>
   map o_id (orders_table (snd (create_order safe_number path_param
      ''2024-05-01T10:20:00.000Z'' ''order-1'' ''2024-05-01T10:20:01.000Z'' shopping ''u1?x''
      \<lparr>cu_name = ''A'', cu_email = ''a@x.com'', cu_address = ''1 Main St''\<rparr>))) = [''order-1''] \<and>
   cart_value (snd (create_order safe_number path_param ''2024-05-01T10:20:00.000Z''
      ''order-1'' ''2024-05-01T10:20:01.000Z'' shopping ''u1?x''
      \<lparr>cu_name = ''A'', cu_email = ''a@x.com'', cu_address = ''1 Main St''\<rparr>)) ''u1'' = JArray []"
proof -
  have ne: "[\<lparr>productId = 1::int, quantity = 2::rat\<rparr>] \<noteq> []" by simp
  have own: "cart_value shopping ''u1?x'' = JArray []"
    by (simp add: shopping_eq cart_value_def get_item_def)
  let ?run = "create_order safe_number path_param ''2024-05-01T10:20:00.000Z''
      ''order-1'' ''2024-05-01T10:20:01.000Z'' shopping ''u1?x''
      \<lparr>cu_name = ''A'', cu_email = ''a@x.com'', cu_address = ''1 Main St''\<rparr>"
  note run = create_order_run [where route = path_param and accepts = safe_number,
      OF path_param_query shopping_cart ne shopping_lines shopping_order_ok]
  have r1: "status_code (fst ?run) = 200"
    by (simp add: run)
  have none: "orders_table shopping = []"
    by (simp add: shopping_eq seeded_def)
  have r2: "map o_id (orders_table (snd ?run)) = [''order-1'']"
    by (simp add: run put_item_def none)
  have r3: "cart_value (snd ?run) ''u1'' = JArray []"
    by (simp add: run cart_value_def get_put js_or_def)
  from own shopping_cart r1 r2 r3 show ?thesis
    by (intro conjI)
qed

section \<open>Frontend service\<close>

text \<open>
  C10: when the product is in no line of the user's cart, \<open>POST /cart/update/:id\<close>
  redirects to \<open>/cart\<close> and the state, every cart and every product's stock in it, is
  the one before the request.
\<close>

theorem cart_update_absent_product:
  assumes "\<not> in_cart (cart_value st u) p"
  shows "cart_update accepts cartNow st u p newQuantity = (Redirect ''/cart'', st)"
proof (cases "cart_value st u")
  case (JArray xs)
  with assms have "find (\<lambda>item. productId item = p) xs = None"
    by (simp add: find_None_iff list_ex_iff)
  with JArray show ?thesis
    by (simp add: cart_update_def get_cart_def)
qed (simp_all add: cart_update_def get_cart_def)

theorem cart_update_absent_product_witness:
  "\<not> in_cart (cart_value shopping ''u1'') 3 \<and>
   cart_update safe_number ''2024-05-01T10:30:00.000Z'' shopping ''u1'' 3 4
     = (Redirect ''/cart'', shopping)"
proof -
  have absent: "\<not> in_cart (cart_value shopping ''u1'') 3"
    by (simp add: shopping_cart)
  from cart_update_absent_product [OF absent] absent show ?thesis by simp
qed

end
